theory Spec2Isabelle
  imports Main "HOL-Library.Log_Nat" "HOL-Library.Sublist"
begin

section \<open>The data-service worker client\<close>

text \<open>
  A shallow embedding of \<^verbatim>\<open>tensorflow/core/data/service/worker_client.cc\<close>: the bandwidth
  throttle \<^verbatim>\<open>ByteBlockChecker\<close>, the gRPC and the local data-transfer clients, the
  factory that the gRPC registrar installs and the session object
  \<^verbatim>\<open>DataServiceWorkerClient\<close>.

  Conventions of the model.
  \<^item> Every member function takes the object's state and returns the updated state;
    the mutexes are not modelled (each member function is one atomic step).
  \<^item> What a function does to the outside world is returned as a list of
    \<open>event\<close>s, in program order.
  \<^item> \<^verbatim>\<open>int64_t\<close> values are mathematical integers: the code has no wrap-around for
    them (signed overflow is undefined in C++), so the model describes the runs in
    which they stay in range.
  \<^item> Undefined behaviour the model does track is a value of type
    \<open>undefined_behaviour\<close>, returned as \<open>Inl\<close>.
  \<^item> A data member keeps its name without the trailing underscore
    (\<^verbatim>\<open>sum_total_bytes_\<close> is \<open>sum_total_bytes\<close>); where two classes have a member of the
    same name, the second one is prefixed.
  \<^item> Functions and types of other files (the stub, the tensor decoder, the
    credentials factory, the registry of local workers, \<^verbatim>\<open>WrapError\<close>, the protocol
    names) are parameters.
\<close>

subsection \<open>Status values\<close>

datatype Code =
  OK | CANCELLED | UNKNOWN | INVALID_ARGUMENT | DEADLINE_EXCEEDED | NOT_FOUND
  | ALREADY_EXISTS | PERMISSION_DENIED | RESOURCE_EXHAUSTED | FAILED_PRECONDITION
  | ABORTED | OUT_OF_RANGE | UNIMPLEMENTED | INTERNAL | UNAVAILABLE | DATA_LOSS
  | UNAUTHENTICATED

datatype Status = Status Code string

datatype grpc_Status = grpc_Status Code string

definition Status_OK :: Status where
  "Status_OK = Status OK []"

fun ok :: "Status \<Rightarrow> bool" where
  "ok (Status c m) = (c = OK)"

fun grpc_ok :: "grpc_Status \<Rightarrow> bool" where
  "grpc_ok (grpc_Status c m) = (c = OK)"

fun code :: "Status \<Rightarrow> Code" where
  "code (Status c m) = c"

fun error_message :: "Status \<Rightarrow> string" where
  "error_message (Status c m) = m"

definition errors_Cancelled :: "string \<Rightarrow> Status" where
  "errors_Cancelled m = Status CANCELLED m"

definition errors_Internal :: "string \<Rightarrow> Status" where
  "errors_Internal m = Status INTERNAL m"

datatype undefined_behaviour = NullPointerDereference | FloatToIntOutOfRange | DanglingPointer

datatype event =
  RemoteCall int
  | WorkerCall string int
  | SleepForMicroseconds int
  | ContextsTryCancel "nat set"

subsection \<open>Double-precision arithmetic\<close>

text \<open>
  \<^verbatim>\<open>AddAndSleepCheck\<close> computes its sleep time in \<^verbatim>\<open>double\<close>. A finite double is
  the rational it denotes; every operation rounds the exact result to 53 significant
  bits, ties to even. Infinities and NaN are one value \<open>NonFinite\<close>: the only thing the
  code does with a double is to convert it to \<^verbatim>\<open>int64_t\<close>, which is undefined for
  all of them. Exponent overflow and subnormal numbers are not modelled: the operands
  come from \<^verbatim>\<open>int64_t\<close> values and the constants 8 and 10^6, far from both.
\<close>

datatype double = Finite rat | NonFinite

definition round_half_even :: "rat \<Rightarrow> int" where
  "round_half_even q =
     (let f = \<lfloor>q\<rfloor>; r = q - of_int f
      in if r < 1 / 2 then f else if 1 / 2 < r then f + 1 else if even f then f else f + 1)"

definition pow2 :: "int \<Rightarrow> rat" where
  "pow2 e = (if 0 \<le> e then 2 ^ nat e else 1 / 2 ^ nat (- e))"

definition ilog2 :: "rat \<Rightarrow> int" where
  \<comment> \<open>\<open>\<lfloor>log\<^sub>2 q\<rfloor>\<close> for \<open>0 < q\<close>\<close>
  "ilog2 q =
     (let (a, b) = quotient_of q; k = bitlen a - bitlen b
      in if pow2 k \<le> q then k else k - 1)"

definition double_round :: "rat \<Rightarrow> rat" where
  "double_round q =
     (if q = 0 then 0
      else let e = ilog2 \<bar>q\<bar> - 52
           in sgn q * of_int (round_half_even (\<bar>q\<bar> / pow2 e)) * pow2 e)"

definition double_of_int64 :: "int \<Rightarrow> double" where
  "double_of_int64 i = Finite (double_round (of_int i))"

fun double_mul :: "double \<Rightarrow> double \<Rightarrow> double" where
  "double_mul (Finite a) (Finite b) = Finite (double_round (a * b))"
| "double_mul a b = NonFinite"

fun double_div :: "double \<Rightarrow> double \<Rightarrow> double" where
  "double_div (Finite a) (Finite b) = (if b = 0 then NonFinite else Finite (double_round (a / b)))"
| "double_div a b = NonFinite"

fun int64_of_double :: "double \<Rightarrow> undefined_behaviour + int" where
  "int64_of_double NonFinite = Inl FloatToIntOutOfRange"
| "int64_of_double (Finite q) =
     (let i = (if 0 \<le> q then \<lfloor>q\<rfloor> else \<lceil>q\<rceil>)
      in if - (2 ^ 63) \<le> i \<and> i < 2 ^ 63 then Inr i else Inl FloatToIntOutOfRange)"

subsection \<open>ByteBlockChecker\<close>

record ByteBlockChecker =
  sum_total_bytes :: int
  check_block_size :: int
  max_bandwidth_bps :: int
  prev_call_time_micros :: int

definition expected_sleep_time :: "int \<Rightarrow> int \<Rightarrow> undefined_behaviour + int" where
  \<comment> \<open>\<^verbatim>\<open>int64_t expected_sleep_time = sum * 8.0 / (max_bandwidth_bps / (1000.0 * 1000.0))\<close>\<close>
  "expected_sleep_time sum_bytes bandwidth_bps =
     int64_of_double
       (double_div (double_mul (double_of_int64 sum_bytes) (Finite 8))
          (double_div (double_of_int64 bandwidth_bps)
             (double_mul (Finite 1000) (Finite 1000))))"

definition AddAndSleepCheck ::
  "ByteBlockChecker \<Rightarrow> int \<Rightarrow> int \<Rightarrow> int \<Rightarrow> undefined_behaviour + (int option \<times> ByteBlockChecker)" where
  \<comment> \<open>\<open>now1\<close> and \<open>now2\<close> are the two readings of \<^verbatim>\<open>EnvTime::NowMicros()\<close>, in program
      order; the first component of the result is the argument of
      \<^verbatim>\<open>SleepForMicroseconds\<close> when it is called.\<close>
  "AddAndSleepCheck c total_bytes now1 now2 =
     (let c1 = c\<lparr>sum_total_bytes := sum_total_bytes c + total_bytes\<rparr>
      in if sum_total_bytes c1 \<ge> check_block_size c1 then
           (case expected_sleep_time (sum_total_bytes c1) (max_bandwidth_bps c1) of
              Inl ub \<Rightarrow> Inl ub
            | Inr expected \<Rightarrow>
                (let curr_time_micros = now1;
                     elapsed = curr_time_micros - prev_call_time_micros c1;
                     slept = (if expected > elapsed then Some (expected - elapsed) else None)
                 in Inr (slept, c1\<lparr>sum_total_bytes := 0, prev_call_time_micros := now2\<rparr>)))
         else Inr (None, c1))"

subsection \<open>Requests, responses and results\<close>

text \<open>
  The protobuf messages and \<^verbatim>\<open>GetElementResult\<close> are declared in other files. The
  model keeps the members this file reads and writes. \<open>req_ByteSizeLong\<close> and
  \<open>resp_ByteSizeLong\<close> stand for \<^verbatim>\<open>ByteSizeLong()\<close> of the message. The types of a
  tensor proto (\<open>'p\<close>), a compressed element (\<open>'z\<close>) and a tensor (\<open>'t\<close>) are left
  open.
\<close>

record GetElementRequest =
  task_id :: int
  req_ByteSizeLong :: nat

datatype ('p, 'z) element_case = kCompressed 'z | kUncompressed "'p list" | ELEMENT_NOT_SET

record ('p, 'z) GetElementResponse =
  resp_end_of_sequence :: bool
  resp_skip_task :: bool
  resp_element :: "('p, 'z) element_case"
  resp_ByteSizeLong :: nat

record 't GetElementResult =
  end_of_sequence :: bool
  skip :: bool
  components :: "'t list"

text \<open>
  What the gRPC client calls in other files: the stub's \<^verbatim>\<open>GetElement\<close> (the status
  and the response it leaves), the default constructor of \<^verbatim>\<open>Tensor\<close>, the scalar
  variant tensor holding a compressed element, \<^verbatim>\<open>Tensor::FromProto\<close> (a member
  function: it takes the tensor it is called on and returns its verdict and the
  tensor as it leaves it) and \<^verbatim>\<open>grpc_util::WrapError\<close>.
\<close>

record ('p, 'z, 't) grpc_collaborators =
  stub_GetElement :: "GetElementRequest \<Rightarrow> grpc_Status \<times> ('p, 'z) GetElementResponse"
  Tensor_default :: 't
  Tensor_variant :: "'z \<Rightarrow> 't"
  FromProto :: "'t \<Rightarrow> 'p \<Rightarrow> bool \<times> 't"
  WrapError :: "string \<Rightarrow> grpc_Status \<Rightarrow> Status"

subsection \<open>GrpcDataTransferClient\<close>

text \<open>
  \<open>active_contexts\<close> holds the addresses of the \<^verbatim>\<open>grpc::ClientContext\<close> objects of the
  calls in flight; an address is a natural number. \<open>byte_block_checker\<close> is the shared
  pointer to the throttle: \<open>None\<close> is the null pointer, \<open>Some a\<close> points to the
  \<open>a\<close>-th throttle the process has constructed. The throttles live in a store that
  every function touching one takes and returns, so that the clients sharing a
  throttle see each other's updates.
\<close>

record GrpcDataTransferClient =
  cancelled :: bool
  active_contexts :: "nat set"
  byte_block_checker :: "nat option"

type_synonym checker_store = "ByteBlockChecker list"

definition throttle ::
  "GrpcDataTransferClient \<Rightarrow> checker_store \<Rightarrow> int \<Rightarrow> int \<Rightarrow> int
     \<Rightarrow> undefined_behaviour + (checker_store \<times> event list)" where
  \<comment> \<open>\<^verbatim>\<open>if (byte_block_checker_ != nullptr) byte_block_checker_->AddAndSleepCheck(bytes);\<close>\<close>
  "throttle c store bytes now1 now2 =
     (case byte_block_checker c of
        None \<Rightarrow> Inr (store, [])
      | Some a \<Rightarrow>
          if a < length store then
            (case AddAndSleepCheck (store ! a) bytes now1 now2 of
               Inl ub \<Rightarrow> Inl ub
             | Inr (slept, checker) \<Rightarrow>
                 Inr (store[a := checker],
                      case slept of None \<Rightarrow> [] | Some d \<Rightarrow> [SleepForMicroseconds d]))
          else Inl DanglingPointer)"

fun parse_components ::
  "('p, 'z, 't) grpc_collaborators \<Rightarrow> 'p list \<Rightarrow> 't list \<Rightarrow> bool \<times> 't list" where
  \<comment> \<open>the loop of the \<^verbatim>\<open>kUncompressed\<close> case over \<^verbatim>\<open>result.components\<close>; \<open>False\<close> is
      the early return\<close>
  "parse_components ext [] comps = (True, comps)"
| "parse_components ext (component # rest) comps =
     (let (parsed, tensor) = FromProto ext (Tensor_default ext) component
      in if \<not> parsed then (False, comps @ [tensor])
         else parse_components ext rest (comps @ [tensor]))"

definition Grpc_GetElement_finish ::
  "('p, 'z, 't) grpc_collaborators \<Rightarrow> nat \<Rightarrow> grpc_Status \<Rightarrow> GrpcDataTransferClient
     \<Rightarrow> Status \<times> GrpcDataTransferClient" where
  \<comment> \<open>from \<^verbatim>\<open>active_contexts_.erase(&ctx)\<close> to the end of \<^verbatim>\<open>GetElement\<close>\<close>
  "Grpc_GetElement_finish ext ctx s c =
     (let c2 = c\<lparr>active_contexts := active_contexts c - {ctx}\<rparr>
      in if \<not> grpc_ok s then (WrapError ext ''Failed to get element'' s, c2)
         else (Status_OK, c2))"

definition Grpc_GetElement ::
  "('p, 'z, 't) grpc_collaborators \<Rightarrow> nat \<Rightarrow> int \<Rightarrow> int \<Rightarrow> GetElementRequest
     \<Rightarrow> GrpcDataTransferClient \<Rightarrow> checker_store \<Rightarrow> 't GetElementResult
     \<Rightarrow> undefined_behaviour
         + (Status \<times> GrpcDataTransferClient \<times> checker_store \<times> 't GetElementResult \<times> event list)" where
  \<comment> \<open>\<open>ctx\<close> is the address of the call's \<^verbatim>\<open>grpc::ClientContext\<close>, a local variable of
      the call; \<open>now1\<close> and \<open>now2\<close> are the clock readings of the throttle.\<close>
  "Grpc_GetElement ext ctx now1 now2 req c store result =
     (if cancelled c then
        Inr (errors_Cancelled ''Client was cancelled.'', c, store, result, [])
      else
        let c1 = c\<lparr>active_contexts := insert ctx (active_contexts c)\<rparr>;
            (s, resp) = stub_GetElement ext req
        in case throttle c1 store (int (resp_ByteSizeLong resp + req_ByteSizeLong req)) now1 now2 of
             Inl ub \<Rightarrow> Inl ub
           | Inr (store1, sleeps) \<Rightarrow>
              (let r1 = result\<lparr>end_of_sequence := resp_end_of_sequence resp,
                              skip := resp_skip_task resp\<rparr>;
                   events = RemoteCall (task_id req) # sleeps
               in case resp_element resp of
                    kCompressed compressed \<Rightarrow>
                      (let r2 = r1\<lparr>components := components r1 @ [Tensor_variant ext compressed]\<rparr>;
                           (st, c2) = Grpc_GetElement_finish ext ctx s c1
                       in Inr (st, c2, store1, r2, events))
                  | kUncompressed protos \<Rightarrow>
                      (case parse_components ext protos (components r1) of
                         (False, comps) \<Rightarrow>
                           Inr (errors_Internal ''Failed to parse tensor.'', c1, store1,
                                r1\<lparr>components := comps\<rparr>, events)
                       | (True, comps) \<Rightarrow>
                           (let (st, c2) = Grpc_GetElement_finish ext ctx s c1
                            in Inr (st, c2, store1, r1\<lparr>components := comps\<rparr>, events)))
                  | ELEMENT_NOT_SET \<Rightarrow>
                      (let (st, c2) = Grpc_GetElement_finish ext ctx s c1
                       in Inr (st, c2, store1, r1, events))))"

definition Grpc_TryCancel :: "GrpcDataTransferClient \<Rightarrow> GrpcDataTransferClient \<times> event list" where
  "Grpc_TryCancel c = (c\<lparr>cancelled := True\<rparr>, [ContextsTryCancel (active_contexts c)])"

subsection \<open>Error messages\<close>

text \<open>
  \<^verbatim>\<open>absl::Substitute\<close> replaces \<^verbatim>\<open>$0\<close> to \<^verbatim>\<open>$9\<close> in a format by its arguments and
  \<^verbatim>\<open>$$\<close> by a dollar sign; a malformed format gives no text. An integer argument is
  written in decimal.
\<close>

fun subst :: "string \<Rightarrow> string list \<Rightarrow> string option" where
  "subst [] args = Some []"
| "subst (c # rest) args =
     (if c = CHR ''$'' then
        (case rest of
           [] \<Rightarrow> None
         | d # rest' \<Rightarrow>
             if d = CHR ''$'' then map_option ((#) CHR ''$'') (subst rest' args)
             else if (48::nat) \<le> of_char d \<and> (of_char d :: nat) \<le> 57
                     \<and> of_char d - 48 < length args
             then map_option ((@) (args ! (of_char d - 48))) (subst rest' args)
             else None)
      else map_option ((#) c) (subst rest args))"

definition Substitute :: "string \<Rightarrow> string list \<Rightarrow> string" where
  "Substitute format args = (case subst format args of None \<Rightarrow> [] | Some m \<Rightarrow> m)"

fun decimal :: "nat \<Rightarrow> string" where
  "decimal n =
     (if n < 10 then [''0123456789'' ! n]
      else decimal (n div 10) @ [''0123456789'' ! (n mod 10)])"

definition Arg_int64 :: "int \<Rightarrow> string" where
  "Arg_int64 i = (if i < 0 then CHR ''-'' # decimal (nat (- i)) else decimal (nat i))"

subsection \<open>LocalDataTransferClient\<close>

text \<open>
  A worker of the process is its \<^verbatim>\<open>GetElementResult\<close> entry point; the parameter
  \<open>workers\<close> of the functions below is \<^verbatim>\<open>LocalWorkers::Get\<close>, with \<open>None\<close> for the null
  pointer.
\<close>

type_synonym 't worker =
  "GetElementRequest \<Rightarrow> 't GetElementResult \<Rightarrow> Status \<times> 't GetElementResult"

record LocalDataTransferClient =
  worker_address :: string
  local_cancelled :: bool

definition VerifyClientIsNotCancelled :: "LocalDataTransferClient \<Rightarrow> Status" where
  "VerifyClientIsNotCancelled c =
     (if local_cancelled c then
        errors_Cancelled
          (Substitute ''Client for worker $0 has been cancelled.'' [worker_address c])
      else Status_OK)"

definition GetWorker ::
  "(string \<Rightarrow> 't worker option) \<Rightarrow> LocalDataTransferClient \<Rightarrow> GetElementRequest
     \<Rightarrow> Status + 't worker" where
  "GetWorker workers c req =
     (case workers (worker_address c) of
        None \<Rightarrow>
          Inl (errors_Cancelled
                 (Substitute
                    ''Local worker at address $0 is no longer available; cancel request for task $1.''
                    [worker_address c, Arg_int64 (task_id req)]))
      | Some w \<Rightarrow> Inr w)"

definition Local_GetElement ::
  "(string \<Rightarrow> 't worker option) \<Rightarrow> GetElementRequest \<Rightarrow> LocalDataTransferClient
     \<Rightarrow> 't GetElementResult \<Rightarrow> Status \<times> 't GetElementResult \<times> event list" where
  "Local_GetElement workers req c result =
     (let st = VerifyClientIsNotCancelled c
      in if \<not> ok st then (st, result, [])
         else case GetWorker workers c req of
                Inl e \<Rightarrow> (e, result, [])
              | Inr w \<Rightarrow>
                  (let (st', result') = w req result
                   in (st', result', [WorkerCall (worker_address c) (task_id req)])))"

definition Local_TryCancel :: "LocalDataTransferClient \<Rightarrow> LocalDataTransferClient" where
  "Local_TryCancel c = c\<lparr>local_cancelled := True\<rparr>"

subsection \<open>DataTransferClient: the two implementations behind one interface\<close>

datatype DataTransferClient =
  Grpc GrpcDataTransferClient
  | Local LocalDataTransferClient

fun GetElement ::
  "('p, 'z, 't) grpc_collaborators \<Rightarrow> (string \<Rightarrow> 't worker option) \<Rightarrow> nat \<Rightarrow> int \<Rightarrow> int
     \<Rightarrow> GetElementRequest \<Rightarrow> DataTransferClient \<Rightarrow> checker_store \<Rightarrow> 't GetElementResult
     \<Rightarrow> undefined_behaviour
         + (Status \<times> DataTransferClient \<times> checker_store \<times> 't GetElementResult \<times> event list)" where
  "GetElement ext workers ctx now1 now2 req (Grpc c) store result =
     (case Grpc_GetElement ext ctx now1 now2 req c store result of
        Inl ub \<Rightarrow> Inl ub
      | Inr (st, c', store', result', events) \<Rightarrow> Inr (st, Grpc c', store', result', events))"
| "GetElement ext workers ctx now1 now2 req (Local c) store result =
     (case Local_GetElement workers req c result of
        (st, result', events) \<Rightarrow> Inr (st, Local c, store, result', events))"

fun TryCancel :: "DataTransferClient \<Rightarrow> DataTransferClient \<times> event list" where
  "TryCancel (Grpc c) = (case Grpc_TryCancel c of (c', events) \<Rightarrow> (Grpc c', events))"
| "TryCancel (Local c) = (Local (Local_TryCancel c), [])"

subsection \<open>The registrars\<close>

text \<open>
  The global \<^verbatim>\<open>g_byte_block_checker\<close> and the throttles constructed so far are the
  state of the process. A factory is the lambda a registrar installs: it takes the
  configuration and the pointer it writes the client to, and returns the status and
  the pointer's value when it returns. \<^verbatim>\<open>CreateClientCredentials\<close> and the constructor
  of \<^verbatim>\<open>ByteBlockChecker\<close> are declared in other files.
\<close>

record Config =
  config_protocol :: string
  config_address :: string
  config_max_bandwidth_bps :: int

record process_state =
  g_byte_block_checker :: "nat option"
  checkers :: checker_store

definition initial_process :: process_state where
  "initial_process = \<lparr>g_byte_block_checker = None, checkers = []\<rparr>"

definition Grpc_factory ::
  "(string \<Rightarrow> Status) \<Rightarrow> (int \<Rightarrow> ByteBlockChecker) \<Rightarrow> Config \<Rightarrow> DataTransferClient option
     \<Rightarrow> process_state \<Rightarrow> Status \<times> DataTransferClient option \<times> process_state" where
  "Grpc_factory CreateClientCredentials new_ByteBlockChecker config out p =
     (let st = CreateClientCredentials (config_protocol config)
      in if \<not> ok st then (st, out, p)
         else
           let p1 = (if g_byte_block_checker p = None \<and> config_max_bandwidth_bps config > 0
                     then p\<lparr>g_byte_block_checker := Some (length (checkers p)),
                            checkers := checkers p
                              @ [new_ByteBlockChecker (config_max_bandwidth_bps config)]\<rparr>
                     else p)
           in (Status_OK,
               Some (Grpc \<lparr>cancelled = False, active_contexts = {},
                           byte_block_checker = g_byte_block_checker p1\<rparr>),
               p1))"

definition Local_factory ::
  "Config \<Rightarrow> DataTransferClient option \<Rightarrow> process_state
     \<Rightarrow> Status \<times> DataTransferClient option \<times> process_state" where
  "Local_factory config out p =
     (Status_OK,
      Some (Local \<lparr>worker_address = config_address config, local_cancelled = False\<rparr>),
      p)"

subsection \<open>DataServiceWorkerClient\<close>

text \<open>
  The session object. \<open>client\<close> is the \<^verbatim>\<open>std::unique_ptr\<close> member \<^verbatim>\<open>client_\<close>, \<open>None\<close>
  for the null pointer: a session is constructed without a client, and
  \<open>EnsureInitialized\<close> builds one. The names of the two protocols,
  \<^verbatim>\<open>LocalWorkers::Get\<close> and \<^verbatim>\<open>DataTransferClient::Build\<close> are declared in other files.
  \<^verbatim>\<open>CreateDataServiceWorkerClient\<close> constructs a session and calls its \<^verbatim>\<open>Initialize\<close>,
  which is declared in another file as well; it is not part of the model.
\<close>

record DataServiceWorkerClient =
  session_address :: string
  session_protocol :: string
  transfer_protocol :: string
  session_max_bandwidth_bps :: int
  client :: "DataTransferClient option"

record 't session_collaborators =
  kGrpcTransferProtocol :: string
  kLocalTransferProtocol :: string
  LocalWorkers_Get :: "string \<Rightarrow> 't worker option"
  Build :: "string \<Rightarrow> Config \<Rightarrow> DataTransferClient option \<Rightarrow> process_state
              \<Rightarrow> Status \<times> DataTransferClient option \<times> process_state"

definition GetDataTransferProtocol ::
  "'t session_collaborators \<Rightarrow> DataServiceWorkerClient \<Rightarrow> string" where
  "GetDataTransferProtocol env s =
     (if transfer_protocol s = kGrpcTransferProtocol env
         \<and> LocalWorkers_Get env (session_address s) \<noteq> None
      then kLocalTransferProtocol env
      else transfer_protocol s)"

definition EnsureInitialized ::
  "'t session_collaborators \<Rightarrow> DataServiceWorkerClient \<Rightarrow> process_state
     \<Rightarrow> Status \<times> DataServiceWorkerClient \<times> process_state" where
  "EnsureInitialized env s p =
     (if client s \<noteq> None then (Status_OK, s, p)
      else
        let (st, out, p1) =
              Build env (GetDataTransferProtocol env s)
                \<lparr>config_protocol = session_protocol s, config_address = session_address s,
                 config_max_bandwidth_bps = session_max_bandwidth_bps s\<rparr>
                (client s) p;
            s1 = s\<lparr>client := out\<rparr>
        in if \<not> ok st then (st, s1, p1) else (Status_OK, s1, p1))"

definition Session_GetElement ::
  "'t session_collaborators \<Rightarrow> ('p, 'z, 't) grpc_collaborators \<Rightarrow> nat \<Rightarrow> int \<Rightarrow> int
     \<Rightarrow> GetElementRequest \<Rightarrow> DataServiceWorkerClient \<Rightarrow> process_state \<Rightarrow> 't GetElementResult
     \<Rightarrow> undefined_behaviour
         + (Status \<times> DataServiceWorkerClient \<times> process_state \<times> 't GetElementResult \<times> event list)" where
  "Session_GetElement env ext ctx now1 now2 req s p result =
     (let (st, s1, p1) = EnsureInitialized env s p
      in if \<not> ok st then Inr (st, s1, p1, result, [])
         else case client s1 of
                None \<Rightarrow> Inl NullPointerDereference
              | Some c \<Rightarrow>
                  (case GetElement ext (LocalWorkers_Get env) ctx now1 now2 req c (checkers p1) result of
                     Inl ub \<Rightarrow> Inl ub
                   | Inr (st', c', store', result', events) \<Rightarrow>
                       Inr (st', s1\<lparr>client := Some c'\<rparr>, p1\<lparr>checkers := store'\<rparr>, result', events)))"

definition Session_TryCancel ::
  "DataServiceWorkerClient \<Rightarrow> undefined_behaviour + (DataServiceWorkerClient \<times> event list)" where
  \<comment> \<open>\<^verbatim>\<open>void DataServiceWorkerClient::TryCancel() { client_->TryCancel(); }\<close>\<close>
  "Session_TryCancel s =
     (case client s of
        None \<Rightarrow> Inl NullPointerDereference
      | Some c \<Rightarrow> (case TryCancel c of (c', events) \<Rightarrow> Inr (s\<lparr>client := Some c'\<rparr>, events)))"

subsection \<open>Sequences of calls\<close>

text \<open>
  The calls a caller can make on a transfer client, each with the collaborators and
  the inputs of that call, and their execution one after the other on the client and
  the store of throttles.
\<close>

datatype ('p, 'z, 't) operation =
  DoGetElement "('p, 'z, 't) grpc_collaborators" "string \<Rightarrow> 't worker option" nat int int
    GetElementRequest "'t GetElementResult"
  | DoTryCancel

fun run_operation ::
  "('p, 'z, 't) operation \<Rightarrow> DataTransferClient \<times> checker_store
     \<Rightarrow> undefined_behaviour + (DataTransferClient \<times> checker_store)" where
  "run_operation (DoGetElement ext workers ctx now1 now2 req result) (c, store) =
     (case GetElement ext workers ctx now1 now2 req c store result of
        Inl ub \<Rightarrow> Inl ub
      | Inr (st, c', store', result', events) \<Rightarrow> Inr (c', store'))"
| "run_operation DoTryCancel (c, store) = Inr (fst (TryCancel c), store)"

fun run_operations ::
  "('p, 'z, 't) operation list \<Rightarrow> DataTransferClient \<times> checker_store
     \<Rightarrow> undefined_behaviour + (DataTransferClient \<times> checker_store)" where
  "run_operations [] state = Inr state"
| "run_operations (operation # rest) state =
     (case run_operation operation state of
        Inl ub \<Rightarrow> Inl ub
      | Inr state' \<Rightarrow> run_operations rest state')"

fun is_cancelled :: "DataTransferClient \<Rightarrow> bool" where
  "is_cancelled (Grpc c) = cancelled c"
| "is_cancelled (Local c) = local_cancelled c"

text \<open>
  The states of a process: it starts with no throttle, and its throttles change when
  the gRPC factory runs and when a client accounts for a transfer.
\<close>

inductive reachable :: "process_state \<Rightarrow> bool" where
  start: "reachable initial_process"
| create:
    "reachable p \<Longrightarrow>
     Grpc_factory CreateClientCredentials new_ByteBlockChecker config out p = (st, out', p') \<Longrightarrow>
     reachable p'"
| transfer:
    "reachable p \<Longrightarrow> throttle c (checkers p) bytes now1 now2 = Inr (store', events) \<Longrightarrow>
     reachable (p\<lparr>checkers := store'\<rparr>)"

subsection \<open>Vocabulary of the properties\<close>

definition parses :: "('p, 'z, 't) grpc_collaborators \<Rightarrow> 'p \<Rightarrow> bool" where
  "parses ext component = fst (FromProto ext (Tensor_default ext) component)"

definition parsed_tensor :: "('p, 'z, 't) grpc_collaborators \<Rightarrow> 'p \<Rightarrow> 't" where
  "parsed_tensor ext component = snd (FromProto ext (Tensor_default ext) component)"

fun decode_fails :: "('p, 'z, 't) grpc_collaborators \<Rightarrow> ('p, 'z) element_case \<Rightarrow> bool" where
  "decode_fails ext (kUncompressed protos) = (\<not> list_all (parses ext) protos)"
| "decode_fails ext e = False"


definition sleeps :: "event \<Rightarrow> bool" where
  "sleeps e = (case e of SleepForMicroseconds d \<Rightarrow> True | _ \<Rightarrow> False)"

subsection \<open>Concrete inputs\<close>

text \<open>
  A response with three uncompressed components of which the second does not parse,
  delivered by a call whose transport failed as well; a decoder that leaves the
  tensor untouched when it fails.
\<close>

definition demo_response :: "(int, unit) GetElementResponse" where
  "demo_response =
     \<lparr>resp_end_of_sequence = True, resp_skip_task = True,
      resp_element = kUncompressed [7, - 1, 9], resp_ByteSizeLong = 30\<rparr>"

definition demo_ext :: "(int, unit, int) grpc_collaborators" where
  "demo_ext =
     \<lparr>stub_GetElement = (\<lambda>req. (grpc_Status UNAVAILABLE ''connection reset'', demo_response)),
      Tensor_default = 0,
      Tensor_variant = (\<lambda>u. 0),
      FromProto = (\<lambda>t p. if 0 \<le> p then (True, p) else (False, t)),
      WrapError = (\<lambda>m s. case s of grpc_Status c e \<Rightarrow> Status c (m @ '': '' @ e))\<rparr>"

text \<open>The same failed call with a response whose two components parse.\<close>

definition demo_clean_response :: "(int, unit) GetElementResponse" where
  "demo_clean_response =
     \<lparr>resp_end_of_sequence = True, resp_skip_task = True,
      resp_element = kUncompressed [7, 9], resp_ByteSizeLong = 20\<rparr>"

definition demo_clean_ext :: "(int, unit, int) grpc_collaborators" where
  "demo_clean_ext =
     demo_ext\<lparr>stub_GetElement :=
       (\<lambda>req. (grpc_Status UNAVAILABLE ''connection reset'', demo_clean_response))\<rparr>"

definition demo_request :: GetElementRequest where
  "demo_request = \<lparr>task_id = 42, req_ByteSizeLong = 10\<rparr>"

definition demo_client :: GrpcDataTransferClient where
  "demo_client = \<lparr>cancelled = False, active_contexts = {}, byte_block_checker = None\<rparr>"

definition demo_result :: "int GetElementResult" where
  "demo_result = \<lparr>end_of_sequence = False, skip = False, components = []\<rparr>"

definition demo_local :: LocalDataTransferClient where
  "demo_local = \<lparr>worker_address = ''localhost:5000'', local_cancelled = False\<rparr>"

definition no_workers :: "string \<Rightarrow> int worker option" where
  "no_workers a = None"

definition demo_checker :: ByteBlockChecker where
  "demo_checker =
     \<lparr>sum_total_bytes = 0, check_block_size = 1000000, max_bandwidth_bps = 1000000,
      prev_call_time_micros = 0\<rparr>"


definition demo_credentials :: "string \<Rightarrow> Status" where
  "demo_credentials security = Status_OK"

definition demo_new_checker :: "int \<Rightarrow> ByteBlockChecker" where
  "demo_new_checker b =
     \<lparr>sum_total_bytes = 0, check_block_size = 1000000, max_bandwidth_bps = b,
      prev_call_time_micros = 0\<rparr>"

definition demo_config :: "int \<Rightarrow> Config" where
  "demo_config b =
     \<lparr>config_protocol = ''grpc'', config_address = ''localhost:5000'',
      config_max_bandwidth_bps = b\<rparr>"

definition demo_process :: process_state where
  \<comment> \<open>after two clients were created, for 1000000 and for 2000000 bytes per second\<close>
  "demo_process =
     snd (snd (Grpc_factory demo_credentials demo_new_checker (demo_config 2000000) None
       (snd (snd (Grpc_factory demo_credentials demo_new_checker (demo_config 1000000) None
          initial_process)))))"

definition demo_env :: "int session_collaborators" where
  "demo_env =
     \<lparr>kGrpcTransferProtocol = ''grpc'', kLocalTransferProtocol = ''local'',
      LocalWorkers_Get = no_workers,
      Build = (\<lambda>name config out p. (Status NOT_FOUND name, out, p))\<rparr>"

definition demo_session :: "string \<Rightarrow> DataServiceWorkerClient" where
  "demo_session transfer =
     \<lparr>session_address = ''localhost:5000'', session_protocol = ''grpc'',
      transfer_protocol = transfer, session_max_bandwidth_bps = 0, client = None\<rparr>"

section \<open>Properties\<close>

subsection \<open>The arithmetic of the throttle\<close>

lemma round_half_even_of_int: "round_half_even (of_int m) = m"
  by (simp add: round_half_even_def)

lemma bitlen_one: "bitlen 1 = 1"
  by (simp add: bitlen_def floorlog_def)

lemma ilog2_of_int:
  assumes "0 < a"
  shows "ilog2 (of_int a) = bitlen a - 1"
proof -
  have q: "quotient_of (of_int a) = (a, 1)" by simp
  have "2 ^ nat (bitlen a - 1) \<le> a"
    using assms bitlen_bounds by blast
  then have "(of_int (2 ^ nat (bitlen a - 1)) :: rat) \<le> of_int a"
    by (simp only: of_int_le_iff)
  moreover have "0 \<le> bitlen a - 1"
    using assms by (simp add: bitlen_def floorlog_def)
  ultimately have "pow2 (bitlen a - 1) \<le> of_int a"
    by (simp add: pow2_def)
  then show ?thesis
    by (simp add: ilog2_def q bitlen_one)
qed

text \<open>An integer below \<open>2^53\<close> is a double: rounding leaves it as it is.\<close>

lemma double_round_of_int:
  assumes "\<bar>n\<bar> < 2 ^ 53"
  shows "double_round (of_int n) = of_int n"
proof (cases "n = 0")
  case True
  then show ?thesis by (simp add: double_round_def)
next
  case False
  let ?a = "\<bar>n\<bar>"
  have pos: "0 < ?a" using False by simp
  have "bitlen ?a \<le> 53"
    using assms pos by (simp add: bitlen_le_iff_power)
  then have e: "ilog2 (of_int ?a) - 52 \<le> 0"
    using ilog2_of_int [OF pos] by simp
  define d where "d = nat (- (ilog2 (of_int ?a) - 52))"
  have p: "pow2 (ilog2 (of_int ?a) - 52) = 1 / 2 ^ d"
    using e by (auto simp: pow2_def d_def)
  have r: "(of_int ?a :: rat) / (1 / 2 ^ d) = of_int (?a * 2 ^ d)"
    by simp
  have "double_round (of_int n) = sgn (of_int n) * of_int (?a * 2 ^ d) * (1 / 2 ^ d)"
    using False
    by (simp only: double_round_def Let_def of_int_abs [symmetric] p r round_half_even_of_int)
       simp
  also have "\<dots> = sgn (of_int n) * of_int ?a"
    by simp
  also have "\<dots> = of_int n"
    by (auto simp: sgn_if abs_if)
  finally show ?thesis .
qed

text \<open>
  At 1000000 bytes per second the divisor is exactly 1, and the expected time is 8
  microseconds per byte.
\<close>

lemma expected_sleep_time_1000000:
  assumes "0 \<le> s" "s < 2 ^ 50"
  shows "expected_sleep_time s 1000000 = Inr (8 * s)"
proof -
  have a: "double_round (of_int s) = of_int s"
    using assms by (intro double_round_of_int) simp
  have b: "double_round (of_int s * 8) = of_int (s * 8)"
    using assms double_round_of_int [of "s * 8"] by simp
  have d: "double_round 1000000 = 1000000"
    using double_round_of_int [of 1000000] by simp
  have e: "double_round 1 = 1"
    using double_round_of_int [of 1] by simp
  have f: "\<lfloor>(of_int (s * 8) :: rat)\<rfloor> = s * 8"
    by (rule floor_of_int)
  have "expected_sleep_time s 1000000 = int64_of_double (Finite (of_int (s * 8)))"
    by (simp add: expected_sleep_time_def double_of_int64_def a b d e)
  also have "\<dots> = Inr (8 * s)"
    using assms unfolding int64_of_double.simps Let_def f by simp
  finally show ?thesis .
qed


text \<open>A bandwidth of 0 divides by zero: the quotient has no \<^verbatim>\<open>int64_t\<close> value.\<close>

lemma expected_sleep_time_zero_bandwidth:
  "expected_sleep_time s 0 = Inl FloatToIntOutOfRange"
  by (simp add: expected_sleep_time_def double_of_int64_def double_round_def)












lemma AddAndSleepCheck_below:
  "sum_total_bytes c + bytes < check_block_size c \<Longrightarrow>
   AddAndSleepCheck c bytes now1 now2 =
     Inr (None, c\<lparr>sum_total_bytes := sum_total_bytes c + bytes\<rparr>)"
  by (simp add: AddAndSleepCheck_def Let_def)

lemma AddAndSleepCheck_reached:
  "check_block_size c \<le> sum_total_bytes c + bytes \<Longrightarrow>
   expected_sleep_time (sum_total_bytes c + bytes) (max_bandwidth_bps c) = Inr expected \<Longrightarrow>
   AddAndSleepCheck c bytes now1 now2 =
     Inr (if now1 - prev_call_time_micros c < expected
          then Some (expected - (now1 - prev_call_time_micros c)) else None,
          c\<lparr>sum_total_bytes := 0, prev_call_time_micros := now2\<rparr>)"
  by (simp add: AddAndSleepCheck_def Let_def)

lemma AddAndSleepCheck_undefined:
  "AddAndSleepCheck c bytes now1 now2 = Inl ub \<longleftrightarrow>
     check_block_size c \<le> sum_total_bytes c + bytes
     \<and> expected_sleep_time (sum_total_bytes c + bytes) (max_bandwidth_bps c) = Inl ub"
  by (simp add: AddAndSleepCheck_def Let_def split: sum.splits)

lemma demo_checker_small_call:
  "AddAndSleepCheck demo_checker 500000 1000000 16000000 =
     Inr (None, demo_checker\<lparr>sum_total_bytes := 500000\<rparr>)"
  using AddAndSleepCheck_below [of demo_checker 500000 1000000 16000000]
  by (simp add: demo_checker_def)



lemma demo_checker_call:
  "AddAndSleepCheck demo_checker 2000000 1000000 16000000 =
     Inr (Some 15000000, demo_checker\<lparr>prev_call_time_micros := 16000000\<rparr>)"
  using AddAndSleepCheck_reached [of demo_checker 2000000 16000000 1000000 16000000]
    expected_sleep_time_1000000 [of 2000000]
  by (simp add: demo_checker_def)

subsection \<open>The gRPC client\<close>

lemma parse_components_eq:
  "parse_components ext protos comps =
     (if list_all (parses ext) protos then (True, comps @ map (parsed_tensor ext) protos)
      else (False, comps @ map (parsed_tensor ext)
                             (take (Suc (length (takeWhile (parses ext) protos))) protos)))"
  by (induction protos arbitrary: comps)
     (auto simp: parses_def parsed_tensor_def split: prod.splits)

lemma take_Suc_takeWhile:
  "\<not> list_all P xs \<Longrightarrow>
   take (Suc (length (takeWhile P xs))) xs = takeWhile P xs @ [xs ! length (takeWhile P xs)]"
  by (induction xs) auto

lemma throttle_length:
  "throttle c store bytes now1 now2 = Inr (store', events) \<Longrightarrow> length store' = length store"
  by (auto simp: throttle_def split: option.splits if_splits sum.splits)

lemma Grpc_GetElement_cancelled:
  "cancelled c \<Longrightarrow>
   Grpc_GetElement ext ctx now1 now2 req c store result =
     Inr (errors_Cancelled ''Client was cancelled.'', c, store, result, [])"
  by (simp add: Grpc_GetElement_def)

text \<open>The call of a client that is not cancelled, effect by effect.\<close>

lemma Grpc_GetElement_active:
  assumes "\<not> cancelled c"
    and "stub_GetElement ext req = (s, resp)"
    and "Grpc_GetElement ext ctx now1 now2 req c store result = Inr (st, c', store', result', events)"
  shows "throttle (c\<lparr>active_contexts := insert ctx (active_contexts c)\<rparr>) store
      (int (resp_ByteSizeLong resp + req_ByteSizeLong req)) now1 now2 = Inr (store', tl events)
    \<and> events = RemoteCall (task_id req) # tl events
    \<and> end_of_sequence result' = resp_end_of_sequence resp
    \<and> skip result' = resp_skip_task resp
    \<and> cancelled c' = cancelled c
    \<and> byte_block_checker c' = byte_block_checker c
    \<and> (if decode_fails ext (resp_element resp) then
          st = errors_Internal ''Failed to parse tensor.''
          \<and> active_contexts c' = insert ctx (active_contexts c)
        else
          st = (if grpc_ok s then Status_OK else WrapError ext ''Failed to get element'' s)
          \<and> active_contexts c' = active_contexts c - {ctx})
    \<and> components result' =
         components result @
           (case resp_element resp of
              kCompressed compressed \<Rightarrow> [Tensor_variant ext compressed]
            | kUncompressed protos \<Rightarrow>
                map (parsed_tensor ext)
                  (if list_all (parses ext) protos then protos
                   else take (Suc (length (takeWhile (parses ext) protos))) protos)
            | ELEMENT_NOT_SET \<Rightarrow> [])"
  using assms
  by (auto simp: Grpc_GetElement_def Grpc_GetElement_finish_def Let_def parse_components_eq
           split: sum.splits element_case.splits prod.splits if_splits)

lemma Grpc_GetElement_flags:
  assumes "\<not> cancelled c"
    and "stub_GetElement ext req = (s, resp)"
    and "Grpc_GetElement ext ctx now1 now2 req c store result = Inr (st, c', store', result', events)"
  shows "end_of_sequence result' = resp_end_of_sequence resp" "skip result' = resp_skip_task resp"
  using Grpc_GetElement_active [OF assms] by blast+

lemma Grpc_GetElement_decode_fails:
  assumes "\<not> cancelled c"
    and "stub_GetElement ext req = (s, resp)"
    and "Grpc_GetElement ext ctx now1 now2 req c store result = Inr (st, c', store', result', events)"
    and "decode_fails ext (resp_element resp)"
  shows "st = errors_Internal ''Failed to parse tensor.''"
    "active_contexts c' = insert ctx (active_contexts c)"
  using Grpc_GetElement_active [OF assms(1-3)] assms(4) by simp_all

lemma Grpc_GetElement_decoded:
  assumes "\<not> cancelled c"
    and "stub_GetElement ext req = (s, resp)"
    and "Grpc_GetElement ext ctx now1 now2 req c store result = Inr (st, c', store', result', events)"
    and "\<not> decode_fails ext (resp_element resp)"
  shows "st = (if grpc_ok s then Status_OK else WrapError ext ''Failed to get element'' s)"
    "active_contexts c' = active_contexts c - {ctx}"
    "components result' =
       components result @
         (case resp_element resp of
            kCompressed compressed \<Rightarrow> [Tensor_variant ext compressed]
          | kUncompressed protos \<Rightarrow> map (parsed_tensor ext) protos
          | ELEMENT_NOT_SET \<Rightarrow> [])"
proof -
  note a = Grpc_GetElement_active [OF assms(1-3)]
  show "st = (if grpc_ok s then Status_OK else WrapError ext ''Failed to get element'' s)"
    using a assms(4) by simp
  show "active_contexts c' = active_contexts c - {ctx}"
    using a assms(4) by simp
  show "components result' =
       components result @
         (case resp_element resp of
            kCompressed compressed \<Rightarrow> [Tensor_variant ext compressed]
          | kUncompressed protos \<Rightarrow> map (parsed_tensor ext) protos
          | ELEMENT_NOT_SET \<Rightarrow> [])"
    using a assms(4) by (cases "resp_element resp") simp_all
qed

text \<open>A client without a throttle: the call is defined, and nothing sleeps.\<close>

lemma Grpc_GetElement_no_checker:
  assumes "byte_block_checker c = None"
  shows "\<exists>st c' result' events.
     Grpc_GetElement ext ctx now1 now2 req c store result = Inr (st, c', store, result', events)
     \<and> \<not> list_ex sleeps events"
proof (cases "cancelled c")
  case True
  then show ?thesis by (simp add: Grpc_GetElement_cancelled)
next
  case False
  obtain s resp where stub: "stub_GetElement ext req = (s, resp)"
    by (cases "stub_GetElement ext req")
  have t: "throttle (c\<lparr>active_contexts := insert ctx (active_contexts c)\<rparr>) store
          (int (resp_ByteSizeLong resp + req_ByteSizeLong req)) now1 now2 = Inr (store, [])"
    using assms by (simp add: throttle_def)
  show ?thesis
    using False stub t
    by (cases "resp_element resp")
       (auto simp: Grpc_GetElement_def Grpc_GetElement_finish_def Let_def sleeps_def
             simp del: of_nat_add split: prod.splits bool.splits)
qed

lemma Grpc_GetElement_store_length:
  assumes "Grpc_GetElement ext ctx now1 now2 req c store result = Inr (st, c', store', result', events)"
  shows "length store' = length store"
proof (cases "cancelled c")
  case True
  with assms show ?thesis by (simp add: Grpc_GetElement_cancelled)
next
  case False
  obtain s resp where stub: "stub_GetElement ext req = (s, resp)"
    by (cases "stub_GetElement ext req")
  from Grpc_GetElement_active [OF False stub assms] show ?thesis
    by (blast dest: throttle_length)
qed

lemma demo_not_cancelled: "\<not> cancelled demo_client"
  by (simp add: demo_client_def)

lemma demo_stub:
  "stub_GetElement demo_ext demo_request =
     (grpc_Status UNAVAILABLE ''connection reset'', demo_response)"
  by (simp add: demo_ext_def)

lemma demo_element: "resp_element demo_response = kUncompressed [7, - 1, 9]"
  by (simp add: demo_response_def)

lemma demo_parses: "parses demo_ext p = (0 \<le> p)"
  by (simp add: parses_def demo_ext_def)

lemma demo_parsed_tensor: "parsed_tensor demo_ext p = (if 0 \<le> p then p else 0)"
  by (simp add: parsed_tensor_def demo_ext_def)

lemma demo_decode_fails: "decode_fails demo_ext (resp_element demo_response)"
  by (simp add: demo_element demo_parses)

lemma demo_call:
  "Grpc_GetElement demo_ext 5 0 0 demo_request demo_client [] demo_result =
     Inr (errors_Internal ''Failed to parse tensor.'',
          \<lparr>cancelled = False, active_contexts = {5}, byte_block_checker = None\<rparr>,
          [],
          \<lparr>end_of_sequence = True, skip = True, components = [7, 0]\<rparr>,
          [RemoteCall 42])"
  by (simp add: Grpc_GetElement_def demo_ext_def demo_request_def demo_client_def
        demo_result_def demo_response_def throttle_def Let_def)

lemma demo_clean_stub:
  "stub_GetElement demo_clean_ext demo_request =
     (grpc_Status UNAVAILABLE ''connection reset'', demo_clean_response)"
  by (simp add: demo_clean_ext_def)

lemma demo_clean_decodes: "\<not> decode_fails demo_clean_ext (resp_element demo_clean_response)"
  by (simp add: demo_clean_response_def parses_def demo_clean_ext_def demo_ext_def)

lemma demo_clean_call:
  "Grpc_GetElement demo_clean_ext 5 0 0 demo_request demo_client [] demo_result =
     Inr (Status UNAVAILABLE ''Failed to get element: connection reset'',
          \<lparr>cancelled = False, active_contexts = {}, byte_block_checker = None\<rparr>,
          [],
          \<lparr>end_of_sequence = True, skip = True, components = [7, 9]\<rparr>,
          [RemoteCall 42])"
  by (simp add: Grpc_GetElement_def Grpc_GetElement_finish_def demo_clean_ext_def demo_ext_def
        demo_request_def demo_client_def demo_result_def demo_clean_response_def throttle_def
        Let_def)

subsection \<open>Cancellation\<close>

lemma TryCancel_is_cancelled: "is_cancelled (fst (TryCancel c))"
  by (cases c) (simp_all add: Grpc_TryCancel_def Local_TryCancel_def)

lemma TryCancel_cancelled_same: "is_cancelled c \<Longrightarrow> fst (TryCancel c) = c"
  by (cases c) (simp_all add: Grpc_TryCancel_def Local_TryCancel_def)

lemma GetElement_cancelled:
  "is_cancelled c \<Longrightarrow>
   \<exists>st. GetElement ext workers ctx now1 now2 req c store result = Inr (st, c, store, result, [])
        \<and> code st = CANCELLED"
  by (cases c)
     (simp_all add: Grpc_GetElement_cancelled Local_GetElement_def VerifyClientIsNotCancelled_def
        errors_Cancelled_def)

lemma run_operation_cancelled:
  "is_cancelled c \<Longrightarrow> run_operation operation (c, store) = Inr (c, store)"
proof (cases operation)
  case (DoGetElement ext workers ctx now1 now2 req result)
  assume "is_cancelled c"
  from GetElement_cancelled [OF this, of ext workers ctx now1 now2 req store result]
  show ?thesis using DoGetElement by auto
next
  case DoTryCancel
  assume "is_cancelled c"
  then show ?thesis using DoTryCancel by (simp add: TryCancel_cancelled_same)
qed

lemma run_operations_cancelled:
  "is_cancelled c \<Longrightarrow> run_operations operations (c, store) = Inr (c, store)"
  by (induction operations) (simp_all add: run_operation_cancelled)

subsection \<open>The local client\<close>

lemma sublist_in_the_middle: "sublist xs (ps @ xs @ ss)"
  by (auto simp: sublist_def)

lemma no_worker_message:
  "Substitute
     ''Local worker at address $0 is no longer available; cancel request for task $1.''
     [a, t]
   = ''Local worker at address '' @ a
       @ '' is no longer available; cancel request for task '' @ t @ ''.''"
  by (simp add: Substitute_def)

lemma cancelled_message:
  "Substitute ''Client for worker $0 has been cancelled.'' [a]
   = ''Client for worker '' @ a @ '' has been cancelled.''"
  by (simp add: Substitute_def)

subsection \<open>The session\<close>

text \<open>
  A session without a client builds one for the protocol that
  \<open>GetDataTransferProtocol\<close> selects; a session with a client hands \<^verbatim>\<open>TryCancel\<close> on to it.
\<close>

lemma EnsureInitialized_selects:
  "client s = None \<Longrightarrow>
   EnsureInitialized env s p =
     (case Build env (GetDataTransferProtocol env s)
             \<lparr>config_protocol = session_protocol s, config_address = session_address s,
              config_max_bandwidth_bps = session_max_bandwidth_bps s\<rparr> None p of
        (st, out, p1) \<Rightarrow> (if ok st then Status_OK else st, s\<lparr>client := out\<rparr>, p1))"
  by (simp add: EnsureInitialized_def Let_def split: prod.splits)

lemma EnsureInitialized_initialized:
  "client s = Some c \<Longrightarrow> EnsureInitialized env s p = (Status_OK, s, p)"
  by (simp add: EnsureInitialized_def)

lemma Session_TryCancel_initialized:
  "client s = Some c \<Longrightarrow>
   Session_TryCancel s = Inr (s\<lparr>client := Some (fst (TryCancel c))\<rparr>, snd (TryCancel c))"
  by (simp add: Session_TryCancel_def split: prod.splits)

subsection \<open>The throttles of a process\<close>

lemma Grpc_factory_checkers:
  "Grpc_factory CreateClientCredentials new_ByteBlockChecker config out p = (st, out', p') \<Longrightarrow>
   checkers p' =
     (if ok (CreateClientCredentials (config_protocol config)) \<and> g_byte_block_checker p = None
         \<and> 0 < config_max_bandwidth_bps config
      then checkers p @ [new_ByteBlockChecker (config_max_bandwidth_bps config)]
      else checkers p)
   \<and> (g_byte_block_checker p' = None \<longleftrightarrow>
        \<not> (ok (CreateClientCredentials (config_protocol config)) \<and> 0 < config_max_bandwidth_bps config)
        \<and> g_byte_block_checker p = None)"
  by (auto simp: Grpc_factory_def Let_def split: if_splits)

lemma reachable_invariant:
  "reachable p \<Longrightarrow>
   length (checkers p) \<le> 1 \<and> (g_byte_block_checker p = None \<longrightarrow> checkers p = [])"
proof (induction rule: reachable.induct)
  case start
  show ?case by (simp add: initial_process_def)
next
  case (create p CreateClientCredentials new_ByteBlockChecker config out st out' p')
  from Grpc_factory_checkers [OF create.hyps(2)] create.IH show ?case
    by (auto split: if_splits)
next
  case (transfer p c bytes now1 now2 store' events)
  from throttle_length [OF transfer.hyps(2)] transfer.IH show ?case
    by auto
qed

lemma demo_process_eq:
  "demo_process = \<lparr>g_byte_block_checker = Some 0, checkers = [demo_new_checker 1000000]\<rparr>"
  by (simp add: demo_process_def Grpc_factory_def demo_credentials_def demo_config_def
        initial_process_def Status_OK_def Let_def)

lemma reachable_create:
  "reachable p \<Longrightarrow>
   reachable (snd (snd (Grpc_factory CreateClientCredentials new_ByteBlockChecker config out p)))"
  by (rule reachable.create
        [where st = "fst (Grpc_factory CreateClientCredentials new_ByteBlockChecker config out p)"
           and out' = "fst (snd (Grpc_factory CreateClientCredentials new_ByteBlockChecker config out p))"])
     simp_all

lemma demo_process_reachable: "reachable demo_process"
  unfolding demo_process_def by (intro reachable_create reachable.start)


section \<open>The claims\<close>

subsection \<open>The throttle\<close>




text \<open>
  C5, as the code has it. The accumulated byte count is reset to zero exactly in the
  calls in which the running sum reaches or exceeds the block size, whether the call
  sleeps or not: such a call resets the sum and records the time, every other call
  keeps the increased sum and does not sleep. So a call that sleeps resets the sum,
  but not every call that resets the sum sleeps.
\<close>

theorem AddAndSleepCheck_reset_iff_block_reached:
  assumes "AddAndSleepCheck c bytes now1 now2 = Inr (slept, c')"
  shows "(check_block_size c \<le> sum_total_bytes c + bytes \<longrightarrow>
            c' = c\<lparr>sum_total_bytes := 0, prev_call_time_micros := now2\<rparr>)
     \<and> (sum_total_bytes c + bytes < check_block_size c \<longrightarrow>
            c' = c\<lparr>sum_total_bytes := sum_total_bytes c + bytes\<rparr> \<and> slept = None)
     \<and> (slept \<noteq> None \<longrightarrow> sum_total_bytes c' = 0)"
  using assms
  by (auto simp: AddAndSleepCheck_def Let_def split: sum.splits if_splits)

text \<open>A call that reaches the block size, and one that stays below it.\<close>

theorem AddAndSleepCheck_reset_witness:
  "AddAndSleepCheck demo_checker 2000000 1000000 16000000 =
     Inr (Some 15000000, demo_checker\<lparr>prev_call_time_micros := 16000000\<rparr>)
   \<and> check_block_size demo_checker \<le> sum_total_bytes demo_checker + 2000000
   \<and> sum_total_bytes (demo_checker\<lparr>prev_call_time_micros := 16000000\<rparr>) = 0
   \<and> AddAndSleepCheck demo_checker 500000 1000000 16000000 =
     Inr (None, demo_checker\<lparr>sum_total_bytes := 500000\<rparr>)
   \<and> sum_total_bytes demo_checker + 500000 < check_block_size demo_checker
   \<and> sum_total_bytes (demo_checker\<lparr>sum_total_bytes := 500000\<rparr>) = 500000"
  using AddAndSleepCheck_reset_iff_block_reached [OF demo_checker_call]
    AddAndSleepCheck_reset_iff_block_reached [OF demo_checker_small_call]
    demo_checker_call demo_checker_small_call
  by (simp add: demo_checker_def)

text \<open>
  The claim as the specification words it (the sum is set to zero if and only if the
  call sleeps) fails: 20 seconds after the last reset a call that brings the sum from
  500000 to 2000000 bytes resets it and does not sleep.
\<close>

theorem AddAndSleepCheck_reset_without_sleep:
  "AddAndSleepCheck (demo_checker\<lparr>sum_total_bytes := 500000\<rparr>) 1500000 20000000 20000001 =
     Inr (None,
          \<lparr>sum_total_bytes = 0, check_block_size = 1000000, max_bandwidth_bps = 1000000,
           prev_call_time_micros = 20000001\<rparr>)"
  using AddAndSleepCheck_reached
      [of "demo_checker\<lparr>sum_total_bytes := 500000\<rparr>" 1500000 16000000 20000000 20000001]
    expected_sleep_time_1000000 [of 2000000]
  by (simp add: demo_checker_def)


subsection \<open>The gRPC client\<close>

text \<open>
  C1. The claim: the handle that \<^verbatim>\<open>GetElement\<close> inserts into the set of active calls is
  removed again on every path on which the call completes. The code removes it on all
  paths but one: when a component of an uncompressed response does not parse, the
  call returns from inside the loop, before \<^verbatim>\<open>active_contexts_.erase(&ctx)\<close>. So after a
  call of a client that was not cancelled, the handle is still in the set exactly when
  the decoding failed; the set then holds the address of a local variable of a call
  that has returned.
\<close>

theorem GetElement_handle_left_iff_decode_fails:
  assumes "\<not> cancelled c"
    and "Grpc_GetElement ext ctx now1 now2 req c store result = Inr (st, c', store', result', events)"
  shows "ctx \<in> active_contexts c'
     \<longleftrightarrow> decode_fails ext (resp_element (snd (stub_GetElement ext req)))"
proof -
  obtain s resp where stub: "stub_GetElement ext req = (s, resp)"
    by (cases "stub_GetElement ext req")
  show ?thesis
  proof (cases "decode_fails ext (resp_element resp)")
    case True
    from Grpc_GetElement_decode_fails(2) [OF assms(1) stub assms(2) True] True stub
    show ?thesis by simp
  next
    case False
    from Grpc_GetElement_decoded(2) [OF assms(1) stub assms(2) False] False stub
    show ?thesis by simp
  qed
qed

text \<open>The failing input: the second of three components does not parse.\<close>

theorem GetElement_handle_left_witness:
  "\<not> cancelled demo_client
   \<and> Grpc_GetElement demo_ext 5 0 0 demo_request demo_client [] demo_result =
       Inr (errors_Internal ''Failed to parse tensor.'',
            \<lparr>cancelled = False, active_contexts = {5}, byte_block_checker = None\<rparr>, [],
            \<lparr>end_of_sequence = True, skip = True, components = [7, 0]\<rparr>, [RemoteCall 42])
   \<and> 5 \<in> active_contexts \<lparr>cancelled = False, active_contexts = {5}, byte_block_checker = None\<rparr>
   \<and> decode_fails demo_ext (resp_element (snd (stub_GetElement demo_ext demo_request)))"
  using GetElement_handle_left_iff_decode_fails [OF demo_not_cancelled demo_call]
    demo_not_cancelled demo_call
  by simp

text \<open>
  C2, as the code has it. When a component of an uncompressed response does not parse,
  the call returns the Internal error ``Failed to parse tensor.'', and the caller's
  result is not rolled back: its components are those it held before the call,
  followed by every component parsed before the failure and by the tensor the failed
  \<^verbatim>\<open>FromProto\<close> left behind.
\<close>

theorem GetElement_decode_failure_keeps_parsed_components:
  assumes "\<not> cancelled c"
    and "stub_GetElement ext req = (s, resp)"
    and "resp_element resp = kUncompressed protos"
    and "\<not> list_all (parses ext) protos"
    and "Grpc_GetElement ext ctx now1 now2 req c store result = Inr (st, c', store', result', events)"
  shows "st = errors_Internal ''Failed to parse tensor.''
     \<and> components result' =
         components result
           @ map (parsed_tensor ext) (takeWhile (parses ext) protos)
           @ [parsed_tensor ext (protos ! length (takeWhile (parses ext) protos))]"
  using Grpc_GetElement_active [OF assms(1) assms(2) assms(5)] assms(3) assms(4)
  by (auto simp: take_Suc_takeWhile)

theorem GetElement_decode_failure_witness:
  "\<not> cancelled demo_client
   \<and> resp_element demo_response = kUncompressed [7, - 1, 9]
   \<and> \<not> list_all (parses demo_ext) [7, - 1, 9]
   \<and> [7, 0] = components demo_result
         @ map (parsed_tensor demo_ext) (takeWhile (parses demo_ext) [7, - 1, 9])
         @ [parsed_tensor demo_ext ([7, - 1, 9] ! length (takeWhile (parses demo_ext) [7, - 1, 9]))]"
proof -
  have f: "\<not> list_all (parses demo_ext) [7, - 1, 9]"
    by (simp add: demo_parses)
  from GetElement_decode_failure_keeps_parsed_components
    [OF demo_not_cancelled demo_stub demo_element f demo_call] demo_not_cancelled demo_element f
  show ?thesis by simp
qed

text \<open>
  The claim as the specification words it (after a failed decode the caller's result
  holds no partial components) fails: the result that was empty before the call holds
  the first component, 7, and the tensor of the failed second one.
\<close>

theorem GetElement_returns_partial_components:
  "map_sum id (\<lambda>(st, c', store', result', events). (code st, components result'))
     (Grpc_GetElement demo_ext 5 0 0 demo_request demo_client [] demo_result)
     = Inr (INTERNAL, [7, 0])
   \<and> components demo_result = []"
proof
  show "map_sum id (\<lambda>(st, c', store', result', events). (code st, components result'))
     (Grpc_GetElement demo_ext 5 0 0 demo_request demo_client [] demo_result)
     = Inr (INTERNAL, [7, 0])"
    by (simp add: demo_call errors_Internal_def)
  show "components demo_result = []"
    by (simp add: demo_result_def)
qed

text \<open>
  C10. In a call that is not rejected as cancelled, the flags of the response are
  written to the caller's result and the payload is decoded before the status of the
  RPC is looked at. So a component that does not parse makes the call return Internal
  whatever the status of the RPC; and when the RPC failed and the response decodes,
  the call returns the wrapped transport error with the flags overwritten and the
  decoded components appended.
\<close>

theorem GetElement_decodes_before_status:
  assumes "\<not> cancelled c"
    and "stub_GetElement ext req = (s, resp)"
    and "Grpc_GetElement ext ctx now1 now2 req c store result = Inr (st, c', store', result', events)"
  shows "end_of_sequence result' = resp_end_of_sequence resp \<and> skip result' = resp_skip_task resp
     \<and> (decode_fails ext (resp_element resp) \<longrightarrow> st = errors_Internal ''Failed to parse tensor.'')
     \<and> (\<not> decode_fails ext (resp_element resp) \<and> \<not> grpc_ok s \<longrightarrow>
          st = WrapError ext ''Failed to get element'' s
          \<and> components result' =
               components result @
                 (case resp_element resp of
                    kCompressed compressed \<Rightarrow> [Tensor_variant ext compressed]
                  | kUncompressed protos \<Rightarrow> map (parsed_tensor ext) protos
                  | ELEMENT_NOT_SET \<Rightarrow> []))"
  using Grpc_GetElement_flags [OF assms] Grpc_GetElement_decode_fails(1) [OF assms]
    Grpc_GetElement_decoded(1,3) [OF assms]
  by simp

text \<open>
  The RPC failed. With a component that does not parse the call returns Internal; with
  a response that decodes it returns the wrapped transport error, and the result holds
  the flags of the response and the decoded components.
\<close>

theorem GetElement_decodes_before_status_witness:
  "\<not> cancelled demo_client
   \<and> \<not> grpc_ok (grpc_Status UNAVAILABLE ''connection reset'')
   \<and> decode_fails demo_ext (resp_element demo_response)
   \<and> Grpc_GetElement demo_ext 5 0 0 demo_request demo_client [] demo_result =
       Inr (errors_Internal ''Failed to parse tensor.'',
            \<lparr>cancelled = False, active_contexts = {5}, byte_block_checker = None\<rparr>, [],
            \<lparr>end_of_sequence = True, skip = True, components = [7, 0]\<rparr>, [RemoteCall 42])
   \<and> \<not> decode_fails demo_clean_ext (resp_element demo_clean_response)
   \<and> Grpc_GetElement demo_clean_ext 5 0 0 demo_request demo_client [] demo_result =
       Inr (WrapError demo_clean_ext ''Failed to get element''
              (grpc_Status UNAVAILABLE ''connection reset''),
            \<lparr>cancelled = False, active_contexts = {}, byte_block_checker = None\<rparr>, [],
            \<lparr>end_of_sequence = resp_end_of_sequence demo_clean_response,
             skip = resp_skip_task demo_clean_response, components = [7, 9]\<rparr>, [RemoteCall 42])"
proof -
  have a: "\<not> grpc_ok (grpc_Status UNAVAILABLE ''connection reset'')"
    by simp
  have w: "WrapError demo_clean_ext ''Failed to get element''
             (grpc_Status UNAVAILABLE ''connection reset'')
           = Status UNAVAILABLE ''Failed to get element: connection reset''"
    by (simp add: demo_clean_ext_def demo_ext_def)
  have f: "resp_end_of_sequence demo_clean_response" "resp_skip_task demo_clean_response"
    by (simp_all add: demo_clean_response_def)
  note GetElement_decodes_before_status [OF demo_not_cancelled demo_stub demo_call]
    GetElement_decodes_before_status [OF demo_not_cancelled demo_clean_stub demo_clean_call]
  then show ?thesis
    using demo_not_cancelled a demo_decode_fails demo_clean_decodes demo_call demo_clean_call w f
    by simp
qed


subsection \<open>Cancellation\<close>

text \<open>
  C6. Once \<^verbatim>\<open>TryCancel\<close> has been called on a transfer client, of either kind, every
  later \<^verbatim>\<open>GetElement\<close> returns a Cancelled error at once: whatever calls were made in
  between and whatever the request, the call issues neither the remote call nor the
  call of a local worker (it has no effect at all) and leaves the client, the throttles
  and the caller's result as they were.
\<close>

theorem GetElement_after_TryCancel:
  "\<exists>c' st. run_operations operations (fst (TryCancel c), store) = Inr (c', store)
     \<and> GetElement ext workers ctx now1 now2 req c' store result = Inr (st, c', store, result, [])
     \<and> code st = CANCELLED"
  using run_operations_cancelled [OF TryCancel_is_cancelled]
    GetElement_cancelled [OF TryCancel_is_cancelled]
  by metis

subsection \<open>The local client\<close>

text \<open>
  C8. A local client that is not cancelled, at an address for which the registry of
  local workers has no worker: \<^verbatim>\<open>GetElement\<close> returns a Cancelled error whose message
  contains the address and the task id of the request; it calls no worker and leaves
  the caller's result as it was.
\<close>

theorem Local_GetElement_without_worker:
  assumes "\<not> local_cancelled c" and "workers (worker_address c) = None"
  shows "\<exists>m. Local_GetElement workers req c result = (Status CANCELLED m, result, [])
     \<and> GetElement ext workers ctx now now' req (Local c) store result
         = Inr (Status CANCELLED m, Local c, store, result, [])
     \<and> sublist (worker_address c) m \<and> sublist (Arg_int64 (task_id req)) m"
proof -
  let ?m = "''Local worker at address '' @ worker_address c
            @ '' is no longer available; cancel request for task '' @ Arg_int64 (task_id req) @ ''.''"
  have call: "Local_GetElement workers req c result = (Status CANCELLED ?m, result, [])"
    using assms
    unfolding Local_GetElement_def VerifyClientIsNotCancelled_def GetWorker_def no_worker_message
    by (simp add: Status_OK_def errors_Cancelled_def)
  have a: "sublist (worker_address c) ?m"
    by (rule sublist_in_the_middle)
  have "sublist (Arg_int64 (task_id req))
     ((''Local worker at address '' @ worker_address c
         @ '' is no longer available; cancel request for task '') @ Arg_int64 (task_id req) @ ''.'')"
    by (rule sublist_in_the_middle)
  then have t: "sublist (Arg_int64 (task_id req)) ?m"
    by simp
  from call a t show ?thesis
    by (intro exI [of _ ?m]) simp
qed

theorem Local_GetElement_without_worker_witness:
  "\<not> local_cancelled demo_local \<and> no_workers (worker_address demo_local) = None
   \<and> Local_GetElement no_workers demo_request demo_local demo_result =
       (Status CANCELLED
          ''Local worker at address localhost:5000 is no longer available; cancel request for task 42.'',
        demo_result, [])
   \<and> Arg_int64 (task_id demo_request) = ''42''"
proof -
  have a: "\<not> local_cancelled demo_local"
    by (simp add: demo_local_def)
  have b: "no_workers (worker_address demo_local) = None"
    by (simp add: no_workers_def)
  have t: "Arg_int64 (task_id demo_request) = ''42''"
    by (simp add: Arg_int64_def demo_request_def)
  have call: "Local_GetElement no_workers demo_request demo_local demo_result =
       (Status CANCELLED
          ''Local worker at address localhost:5000 is no longer available; cancel request for task 42.'',
        demo_result, [])"
    unfolding Local_GetElement_def VerifyClientIsNotCancelled_def GetWorker_def no_worker_message t
    by (simp add: demo_local_def no_workers_def Status_OK_def errors_Cancelled_def)
  from Local_GetElement_without_worker
    [where c = demo_local and workers = no_workers and req = demo_request
       and result = demo_result and ext = demo_ext and ctx = 5 and now = 0 and now' = 0
       and store = "[]", OF a b]
    a b t call
  show ?thesis by simp
qed

subsection \<open>One throttle for the process\<close>

text \<open>
  C9. In every state a process reaches by creating gRPC clients and transferring, at
  most one \<^verbatim>\<open>ByteBlockChecker\<close> has been constructed. Creating a client with a maximum
  bandwidth of zero or less constructs none. A client created without a throttle never
  sleeps for the accounting: its \<^verbatim>\<open>GetElement\<close> is defined, leaves the throttles alone
  and has no sleep among its effects.
\<close>

theorem at_most_one_ByteBlockChecker:
  assumes "reachable p"
  shows "length (checkers p) \<le> 1
     \<and> (config_max_bandwidth_bps config \<le> 0 \<longrightarrow>
          checkers (snd (snd (Grpc_factory CreateClientCredentials new_ByteBlockChecker config out p)))
            = checkers p)
     \<and> (byte_block_checker c = None \<longrightarrow>
          (\<exists>st c' result' events.
             Grpc_GetElement ext ctx now now' req c store result = Inr (st, c', store, result', events)
             \<and> \<not> list_ex sleeps events))"
proof -
  have a: "length (checkers p) \<le> 1"
    using reachable_invariant [OF assms] by simp
  have b: "config_max_bandwidth_bps config \<le> 0 \<longrightarrow>
          checkers (snd (snd (Grpc_factory CreateClientCredentials new_ByteBlockChecker config out p)))
            = checkers p"
    by (simp add: Grpc_factory_def Let_def)
  from a b Grpc_GetElement_no_checker show ?thesis
    by blast
qed

text \<open>
  After clients for 1000000 and for 2000000 bytes per second were created, the process
  has the one throttle of the first; a third client with bandwidth 0 adds none.
\<close>

theorem at_most_one_ByteBlockChecker_witness:
  "reachable demo_process
   \<and> checkers demo_process = [demo_new_checker 1000000]
   \<and> config_max_bandwidth_bps (demo_config 0) \<le> 0
   \<and> checkers (snd (snd (Grpc_factory demo_credentials demo_new_checker (demo_config 0) None
        demo_process))) = [demo_new_checker 1000000]
   \<and> byte_block_checker demo_client = None
   \<and> \<not> list_ex sleeps [RemoteCall 42]"
proof -
  have a: "config_max_bandwidth_bps (demo_config 0) \<le> 0"
    by (simp add: demo_config_def)
  have b: "byte_block_checker demo_client = None"
    by (simp add: demo_client_def)
  have c: "\<not> list_ex sleeps [RemoteCall 42]"
    by (simp add: sleeps_def)
  from at_most_one_ByteBlockChecker [OF demo_process_reachable,
      where config = "demo_config 0" and CreateClientCredentials = demo_credentials
        and new_ByteBlockChecker = demo_new_checker and out = None and c = demo_client
        and ext = demo_ext and ctx = 5 and now = 0 and now' = 0 and req = demo_request
        and store = "[]" and result = demo_result]
    demo_process_reachable a b c
  show ?thesis by (simp add: demo_process_eq)
qed

subsection \<open>The session\<close>

text \<open>
  C3. The claim: \<^verbatim>\<open>TryCancel\<close> on a session whose client was never initialized is a
  no-op. The code calls \<^verbatim>\<open>client_->TryCancel()\<close> without a test: on a session whose
  \<^verbatim>\<open>client_\<close> is null it dereferences the null pointer. \<^verbatim>\<open>GetElement\<close>, the other entry
  of the session, calls \<^verbatim>\<open>EnsureInitialized\<close> first.
\<close>

theorem TryCancel_uninitialized_dereferences_null:
  "Session_TryCancel (s\<lparr>client := None\<rparr>) = Inl NullPointerDereference"
  by (simp add: Session_TryCancel_def)

text \<open>
  C7, as the code has it. The protocol the session selects is the local one if and
  only if the configured protocol is the local one already, or it is the gRPC protocol
  and the registry has a worker for the address; whenever the latter condition fails
  the configured protocol is used unchanged.
\<close>

theorem GetDataTransferProtocol_local_iff:
  "(GetDataTransferProtocol env s = kLocalTransferProtocol env \<longleftrightarrow>
      transfer_protocol s = kLocalTransferProtocol env
      \<or> (transfer_protocol s = kGrpcTransferProtocol env
          \<and> LocalWorkers_Get env (session_address s) \<noteq> None))
   \<and> (\<not> (transfer_protocol s = kGrpcTransferProtocol env
          \<and> LocalWorkers_Get env (session_address s) \<noteq> None)
       \<longrightarrow> GetDataTransferProtocol env s = transfer_protocol s)"
  by (auto simp: GetDataTransferProtocol_def)

text \<open>A session configured for gRPC whose address has no local worker keeps gRPC.\<close>

theorem GetDataTransferProtocol_witness:
  "\<not> (transfer_protocol (demo_session ''grpc'') = kGrpcTransferProtocol demo_env
       \<and> LocalWorkers_Get demo_env (session_address (demo_session ''grpc'')) \<noteq> None)
   \<and> GetDataTransferProtocol demo_env (demo_session ''grpc'') = ''grpc''
   \<and> GetDataTransferProtocol demo_env (demo_session ''grpc'') \<noteq> kLocalTransferProtocol demo_env"
  using GetDataTransferProtocol_local_iff [of demo_env "demo_session ''grpc''"]
  by (simp add: demo_env_def demo_session_def no_workers_def)

text \<open>
  The claim as the specification words it (local if and only if gRPC is configured and
  a local worker is registered) fails for a session configured with the local protocol
  itself: the local protocol is selected, with no worker registered.
\<close>

theorem GetDataTransferProtocol_configured_local:
  "GetDataTransferProtocol demo_env (demo_session ''local'') = kLocalTransferProtocol demo_env
   \<and> \<not> (transfer_protocol (demo_session ''local'') = kGrpcTransferProtocol demo_env
          \<and> LocalWorkers_Get demo_env (session_address (demo_session ''local'')) \<noteq> None)"
  by (simp add: GetDataTransferProtocol_def demo_env_def demo_session_def no_workers_def)


end
